theory Spec2Isabelle
  imports Complex_Main "HOL-Library.AList"
begin

text \<open>
  The modules of the new-tab dashboard, each JavaScript function as a HOL function of the
  same name: the clock's formatting, the settings manager with its load, save, import
  and change events, the background engine, the usage statistics, and the modules'
  \<open>getSettings()\<close>. State that a method mutates is passed in and returned; what a
  method reads from outside the program (the wall clock, \<open>Math.random()\<close>, whether
  storage answers, what an image or a network request does) is an argument; an
  exception is a value of the result. Numbers that the code only counts with are natural
  numbers.
\<close>

section \<open>JavaScript strings and numbers\<close>

text \<open>
  The decimal digit of a number below ten, and \<open>Number.prototype.toString()\<close> on a
  non-negative integer: the decimal numeral without leading zeros.
\<close>

definition digit_char :: "nat \<Rightarrow> char" where
  "digit_char d = ''0123456789'' ! d"

function toString :: "nat \<Rightarrow> string" where
  "toString n = (if n < 10 then [digit_char n] else toString (n div 10) @ [digit_char (n mod 10)])"
  by pat_completeness auto
termination
  by (relation "measure id") auto

declare toString.simps [simp del]

text \<open>
  \<open>String.prototype.padStart(targetLength, padString)\<close> with a one-character pad
  string: the pad is repeated in front until the target length is reached; a string that
  is already long enough is returned as it is.
\<close>

definition padStart :: "nat \<Rightarrow> char \<Rightarrow> string \<Rightarrow> string" where
  "padStart targetLength c s = replicate (targetLength - length s) c @ s"

text \<open>The two decimal digits of a number below one hundred, tens first.\<close>

definition two_digits :: "nat \<Rightarrow> string" where
  "two_digits n = [digit_char (n div 10), digit_char (n mod 10)]"

section \<open>ClockManager (scripts/clock.js)\<close>

record clock_settings =
  showClock :: bool
  showSeconds :: bool
  use24HourFormat :: bool
  showDate :: bool

text \<open>The settings object the constructor of \<open>ClockManager\<close> builds.\<close>

definition clock_defaults :: clock_settings where
  "clock_defaults =
     \<lparr>showClock = True, showSeconds = False, use24HourFormat = False, showDate = True\<rparr>"

text \<open>\<open>padZero(num)\<close>: \<open>num.toString().padStart(2, '0')\<close>.\<close>

definition padZero :: "nat \<Rightarrow> string" where
  "padZero num = padStart 2 (CHR ''0'') (toString num)"

text \<open>
  \<open>updateClock()\<close>. The source reads the wall clock (\<open>new Date()\<close>); the hours,
  minutes and seconds it reads are the arguments here, and the result is the string it
  assigns to the clock element's \<open>textContent\<close>.
\<close>

definition updateClock :: "clock_settings \<Rightarrow> nat \<Rightarrow> nat \<Rightarrow> nat \<Rightarrow> string" where
  "updateClock st hours minutes seconds =
     (let timeString =
        (if use24HourFormat st then padZero hours @ '':'' @ padZero minutes
         else
           (let ampm = (if hours \<ge> 12 then ''PM'' else ''AM'');
                hours1 = hours mod 12;
                hours2 = (if hours1 \<noteq> 0 then hours1 else 12)
            in padZero hours2 @ '':'' @ padZero minutes @ '' '' @ ampm))
      in if showSeconds st then timeString @ '':'' @ padZero seconds else timeString)"

section \<open>Global utilities (scripts/app.js)\<close>

text \<open>
  \<open>window.utils.formatTime(hours, minutes, seconds, format24, showSeconds)\<close>. The
  source's \<open>hours % 12 || 12\<close> is 12 when the remainder is 0.
\<close>

definition formatTime :: "nat \<Rightarrow> nat \<Rightarrow> nat \<Rightarrow> bool \<Rightarrow> bool \<Rightarrow> string" where
  "formatTime hours minutes seconds format24 showSecs =
     (let period = (if \<not> format24 then (if hours \<ge> 12 then '' PM'' else '' AM'') else '''');
          formattedHours =
            (if \<not> format24 then (if hours mod 12 \<noteq> 0 then hours mod 12 else 12) else hours);
          timeString =
            padStart 2 (CHR ''0'') (toString formattedHours) @ '':'' @
            padStart 2 (CHR ''0'') (toString minutes);
          secondsString =
            (if showSecs then '':'' @ padStart 2 (CHR ''0'') (toString seconds) else '''')
      in timeString @ secondsString @ period)"

section \<open>JSON values, objects and errors\<close>

text \<open>
  A stored or imported document is a JSON tree. An object is the list of its own
  properties in insertion order; a property that is absent reads as \<open>undefined\<close>,
  which is \<open>None\<close> here.
\<close>

datatype json =
    JNull
  | JBool bool
  | JNum rat
  | JStr string
  | JArr "json list"
  | JObj "(string \<times> json) list"

type_synonym obj = "(string \<times> json) list"

text \<open>The exceptions the modelled code raises or receives, with their messages.\<close>

datatype js_error = Error string | TypeError string | SyntaxError string

fun message :: "js_error \<Rightarrow> string" where
  "message (Error m) = m"
| "message (TypeError m) = m"
| "message (SyntaxError m) = m"

text \<open>JavaScript truthiness, as \<open>!x\<close> and \<open>if (x)\<close> read a value.\<close>

fun truthy :: "json \<Rightarrow> bool" where
  "truthy JNull = False"
| "truthy (JBool b) = b"
| "truthy (JNum n) = (n \<noteq> 0)"
| "truthy (JStr s) = (s \<noteq> [])"
| "truthy (JArr xs) = True"
| "truthy (JObj kvs) = True"

definition truthy_opt :: "json option \<Rightarrow> bool" where
  "truthy_opt v = (case v of None \<Rightarrow> False | Some x \<Rightarrow> truthy x)"

text \<open>
  The own enumerable properties of a value, which an object spread copies: an object's
  properties, an array's elements and a string's characters under their indices, and
  nothing for \<open>null\<close>, a boolean or a number.
\<close>

fun ownProps :: "json \<Rightarrow> obj" where
  "ownProps (JObj kvs) = kvs"
| "ownProps (JArr xs) = zip (map toString [0..<length xs]) xs"
| "ownProps (JStr s) = zip (map toString [0..<length s]) (map (\<lambda>c. JStr [c]) s)"
| "ownProps v = []"

text \<open>
  The object spread \<open>{ ...a, ...b }\<close>: the properties of \<open>a\<close>, each property of
  \<open>b\<close> in turn replacing the value under its key where \<open>a\<close> has the key and added
  at the end where it has not.
\<close>

definition spread :: "obj \<Rightarrow> json \<Rightarrow> obj" where
  "spread a b = foldl (\<lambda>acc kv. AList.update (fst kv) (snd kv) acc) a (ownProps b)"

text \<open>
  The property read \<open>v[k]\<close> for a key that is neither an index nor \<open>length\<close>:
  reading a property of \<open>null\<close> throws a TypeError.
\<close>

definition getProp :: "json \<Rightarrow> string \<Rightarrow> js_error + json option" where
  "getProp v k =
     (case v of
        JNull \<Rightarrow> Inl (TypeError (''Cannot read properties of null (reading '' @ k @ '')''))
      | _ \<Rightarrow> Inr (map_of (ownProps v) k))"

section \<open>The page: storage, the document's listeners and the modules' settings\<close>

text \<open>
  The listeners the modules register on \<open>document\<close> for settings changes, named by
  the module whose \<open>setupEventListeners\<close> registers them.
\<close>

datatype listener = ClockListener | PinnedAppsListener | BackgroundListener | StatsListener

text \<open>
  The state the settings path reads and writes: the contents of
  \<open>chrome.storage.sync\<close>, the \<open>settings\<close> object of the SettingsManager and its
  status line (text and type), the \<open>settings\<close> objects of ClockManager,
  PinnedAppsManager and BackgroundEngine, whether the StatsTracker's interval runs,
  the listeners registered on \<open>document\<close> in registration order, and two traces:
  every event dispatched on \<open>document\<close> and every listener invocation, with the
  \<open>detail\<close> it carried.
\<close>

record page =
  storage :: obj
  manager_settings :: obj
  status :: "(string \<times> string) option"
  clock_obj :: obj
  apps_obj :: obj
  background_obj :: obj
  tracking :: bool
  listeners :: "(string \<times> listener) list"
  dispatched :: "(string \<times> json) list"
  delivered :: "(listener \<times> json) list"

section \<open>SettingsManager (the settings module)\<close>

text \<open>The settings object the constructor of \<open>SettingsManager\<close> builds.\<close>

definition default_clock :: json where
  "default_clock = JObj
     [(''format'', JStr ''12''), (''showSeconds'', JBool True), (''showDate'', JBool True),
      (''hidden'', JBool False)]"

definition default_apps :: json where
  "default_apps = JObj
     [(''showNames'', JBool True), (''padding'', JNum 10), (''transparency'', JNum (9 / 10)),
      (''gridColumns'', JNum 10), (''gridRows'', JNum 2)]"

definition default_background :: json where
  "default_background = JObj
     [(''type'', JStr ''upload''),
      (''uploadSettings'', JObj
         [(''images'', JArr []), (''cycle'', JStr ''refresh''), (''order'', JStr ''random'')]),
      (''colorSettings'', JObj [(''color'', JStr ''#1a1a1a'')]),
      (''gradientSettings'', JObj
         [(''type'', JStr ''linear''), (''color1'', JStr ''#667eea''),
          (''color2'', JStr ''#764ba2'')]),
      (''apiSettings'', JObj
         [(''source'', JStr ''unsplash''), (''apiKey'', JStr ''''),
          (''query'', JStr ''nature''), (''cycle'', JStr ''refresh'')])]"

definition default_stats :: json where
  "default_stats = JObj
     [(''enabled'', JBool True), (''showUsageTime'', JBool True),
      (''showTabsOpened'', JBool True), (''showDaysUsed'', JBool True),
      (''showTrackersBlocked'', JBool True)]"

definition default_settings :: obj where
  "default_settings =
     [(''clock'', default_clock), (''apps'', default_apps),
      (''background'', default_background), (''stats'', default_stats)]"

text \<open>
  \<open>loadSettings()\<close>. \<open>readable\<close> says whether \<open>chrome.storage.sync.get\<close>
  answers; when it throws, the error is logged and the settings stay as they are.
\<close>

definition loadSettings :: "bool \<Rightarrow> page \<Rightarrow> page" where
  "loadSettings readable p =
     (if \<not> readable then p
      else case map_of (storage p) ''newTabSettings'' of
             None \<Rightarrow> p
           | Some stored \<Rightarrow>
               if truthy stored then p\<lparr>manager_settings := spread (manager_settings p) stored\<rparr>
               else p)"

text \<open>\<open>showStatus(message, type)\<close>: the status line shows the message.\<close>

definition showStatus :: "string \<Rightarrow> string \<Rightarrow> page \<Rightarrow> page" where
  "showStatus msg type p = p\<lparr>status := Some (msg, type)\<rparr>"

section \<open>The feature modules' listeners\<close>

text \<open>
  A write of a module's own settings to storage: \<open>writable\<close> says whether
  \<open>chrome.storage.sync.set\<close> succeeds; a failure is logged and changes nothing.
\<close>

definition storage_set :: "bool \<Rightarrow> string \<Rightarrow> json \<Rightarrow> page \<Rightarrow> page" where
  "storage_set writable key v p =
     (if writable then p\<lparr>storage := AList.update key v (storage p)\<rparr> else p)"

text \<open>
  What each listener does with the event's \<open>detail\<close>. ClockManager,
  PinnedAppsManager and BackgroundEngine call their \<open>updateSettings\<close>, which merges
  the detail into the module's settings by an object spread and saves them under the
  module's own storage key (the re-rendering that follows reads the merged settings).
  StatsTracker calls \<open>handleSettingsChange\<close>, which stops or starts the tracking
  interval on \<open>settings.enabled\<close>; reading \<open>enabled\<close> of a \<open>null\<close> detail throws
  inside the listener and changes nothing.
\<close>

fun handle :: "bool \<Rightarrow> listener \<Rightarrow> json \<Rightarrow> page \<Rightarrow> page" where
  "handle writable ClockListener detail p =
     (let merged = spread (clock_obj p) detail
      in storage_set writable ''clockSettings'' (JObj merged) (p\<lparr>clock_obj := merged\<rparr>))"
| "handle writable PinnedAppsListener detail p =
     (let merged = spread (apps_obj p) detail
      in storage_set writable ''appsSettings'' (JObj merged) (p\<lparr>apps_obj := merged\<rparr>))"
| "handle writable BackgroundListener detail p =
     (let merged = spread (background_obj p) detail
      in storage_set writable ''backgroundSettings'' (JObj merged)
           (p\<lparr>background_obj := merged\<rparr>))"
| "handle writable StatsListener detail p =
     (case getProp detail ''enabled'' of
        Inl err \<Rightarrow> p
      | Inr enabled \<Rightarrow> p\<lparr>tracking := truthy_opt enabled\<rparr>)"

text \<open>
  \<open>document.dispatchEvent(new CustomEvent(topic, { detail }))\<close>: the event is
  recorded, and every listener registered for exactly this topic runs, in registration
  order, before the call returns.
\<close>

definition invoke :: "bool \<Rightarrow> json \<Rightarrow> page \<Rightarrow> listener \<Rightarrow> page" where
  "invoke writable detail p l =
     handle writable l detail (p\<lparr>delivered := delivered p @ [(l, detail)]\<rparr>)"

definition dispatchEvent :: "bool \<Rightarrow> string \<Rightarrow> json \<Rightarrow> page \<Rightarrow> page" where
  "dispatchEvent writable topic detail p =
     foldl (invoke writable detail)
       (p\<lparr>dispatched := dispatched p @ [(topic, detail)]\<rparr>)
       (map snd (filter (\<lambda>reg. fst reg = topic) (listeners p)))"

text \<open>
  The registrations of the four modules' \<open>setupEventListeners\<close>: the topic each one
  passes to \<open>document.addEventListener\<close>. Each topic has one listener, so the order
  of the registrations among the modules does not matter.
\<close>

definition module_listeners :: "(string \<times> listener) list" where
  "module_listeners =
     [(''backgroundSettingsChanged'', BackgroundListener),
      (''clockSettingsChanged'', ClockListener),
      (''appsSettingsChanged'', PinnedAppsListener),
      (''statsSettingsChanged'', StatsListener)]"

section \<open>SettingsManager: notifications, saving, validation and import\<close>

text \<open>
  The \<open>detail\<close> of an event built from a section of the settings: a missing section is
  \<open>undefined\<close>, for which \<open>CustomEvent\<close> keeps its default detail, \<open>null\<close>.
\<close>

definition section_detail :: "obj \<Rightarrow> string \<Rightarrow> json" where
  "section_detail st k = (case map_of st k of None \<Rightarrow> JNull | Some v \<Rightarrow> v)"

text \<open>\<open>dispatchSettingsEvents()\<close>: four events, in this order and under these names.\<close>

definition dispatchSettingsEvents :: "bool \<Rightarrow> page \<Rightarrow> page" where
  "dispatchSettingsEvents writable p =
     (let st = manager_settings p;
          p1 = dispatchEvent writable ''clockSettingsChanged'' (section_detail st ''clock'') p;
          p2 = dispatchEvent writable ''appSettingsChanged'' (section_detail st ''apps'') p1;
          p3 = dispatchEvent writable ''backgroundSettingsChanged''
                 (section_detail st ''background'') p2
      in dispatchEvent writable ''statsSettingsChanged'' (section_detail st ''stats'') p3)"

text \<open>
  \<open>saveSettings()\<close> of the SettingsManager: the whole settings object is written under
  \<open>newTabSettings\<close>; on success the status line reports it and the four events are
  dispatched; a failed write is caught and reported on the status line.
\<close>

definition saveSettings :: "bool \<Rightarrow> page \<Rightarrow> page" where
  "saveSettings writable p =
     (if writable then
        dispatchSettingsEvents writable
          (showStatus ''Settings saved successfully!'' ''success''
             (p\<lparr>storage :=
                  AList.update ''newTabSettings'' (JObj (manager_settings p)) (storage p)\<rparr>))
      else showStatus ''Failed to save settings'' ''error'' p)"

text \<open>
  \<open>validateSettings(settings)\<close>: the first required property whose value is falsy
  (absent, \<open>null\<close>, \<open>false\<close>, \<open>0\<close> or the empty string) raises the error that names
  it.
\<close>

definition required :: "string list" where
  "required = [''clock'', ''apps'', ''background'', ''stats'']"

fun validate_props :: "string list \<Rightarrow> json \<Rightarrow> js_error option" where
  "validate_props [] v = None"
| "validate_props (prop # props) v =
     (case getProp v prop of
        Inl err \<Rightarrow> Some err
      | Inr x \<Rightarrow>
          if \<not> truthy_opt x then Some (Error (''Missing required property: '' @ prop))
          else validate_props props v)"

definition validateSettings :: "json \<Rightarrow> js_error option" where
  "validateSettings v = validate_props required v"

text \<open>
  \<open>populateSettings()\<close> fills the form from the settings. The form's elements are
  taken to exist; what can throw is a property read through a section or a
  sub-document that is \<open>undefined\<close> or \<open>null\<close>, and \<open>images.forEach\<close> on a value
  that is not an array. The result is the first exception, if any.
\<close>

definition read_step :: "string \<Rightarrow> js_error + json option \<Rightarrow> js_error + json option" where
  "read_step k cur =
     (case cur of
        Inl err \<Rightarrow> Inl err
      | Inr None \<Rightarrow>
          Inl (TypeError (''Cannot read properties of undefined (reading '' @ k @ '')''))
      | Inr (Some v) \<Rightarrow> getProp v k)"

definition read_through :: "obj \<Rightarrow> string list \<Rightarrow> js_error option" where
  "read_through st path =
     (case fold read_step path (Inr (Some (JObj st))) of
        Inl err \<Rightarrow> Some err
      | Inr v \<Rightarrow> None)"

definition images_forEach :: "obj \<Rightarrow> js_error option" where
  "images_forEach st =
     (case fold read_step [''background'', ''uploadSettings'', ''images''] (Inr (Some (JObj st))) of
        Inl err \<Rightarrow> Some err
      | Inr (Some (JArr xs)) \<Rightarrow> None
      | Inr other \<Rightarrow> Some (TypeError ''images.forEach is not a function''))"

definition first_error :: "js_error option list \<Rightarrow> js_error option" where
  "first_error es = (case List.map_filter id es of [] \<Rightarrow> None | err # errs \<Rightarrow> Some err)"

definition populateSettings :: "obj \<Rightarrow> js_error option" where
  "populateSettings st =
     first_error
       [read_through st [''clock'', ''format''],
        read_through st [''apps'', ''showNames''],
        read_through st [''background'', ''type''],
        read_through st [''background'', ''uploadSettings'', ''cycle''],
        images_forEach st,
        read_through st [''background'', ''colorSettings'', ''color''],
        read_through st [''background'', ''gradientSettings'', ''type''],
        read_through st [''background'', ''apiSettings'', ''source''],
        read_through st [''stats'', ''enabled'']]"

text \<open>
  \<open>importSettings(event)\<close>. \<open>file\<close> is the text of the chosen file, if one was
  chosen; \<open>parse\<close> is \<open>JSON.parse\<close>. Everything from the parse to the success
  message runs inside one \<open>try\<close>; the \<open>catch\<close> shows the error's message on the
  status line.
\<close>

definition import_failed :: "js_error \<Rightarrow> page \<Rightarrow> page" where
  "import_failed err p = showStatus (''Failed to import settings: '' @ message err) ''error'' p"

definition importSettings ::
  "(string \<Rightarrow> js_error + json) \<Rightarrow> bool \<Rightarrow> string option \<Rightarrow> page \<Rightarrow> page" where
  "importSettings parse writable file p =
     (case file of
        None \<Rightarrow> p
      | Some text \<Rightarrow>
          (case parse text of
             Inl err \<Rightarrow> import_failed err p
           | Inr importedSettings \<Rightarrow>
               (case validateSettings importedSettings of
                  Some err \<Rightarrow> import_failed err p
                | None \<Rightarrow>
                    (let p1 = saveSettings writable
                                (p\<lparr>manager_settings :=
                                     spread (manager_settings p) importedSettings\<rparr>)
                     in case populateSettings (manager_settings p1) of
                          Some err \<Rightarrow> import_failed err p1
                        | None \<Rightarrow> showStatus ''Settings imported successfully'' ''success'' p1))))"

section \<open>BackgroundEngine (scripts/background.js)\<close>

text \<open>
  What \<open>uploadSettings.currentIndex\<close> can hold. The engine's constructor sets it to 0
  and the engine only ever stores non-negative integers in it, but an \<open>uploadSettings\<close>
  object that comes from elsewhere may lack the property: the SettingsManager's has none,
  and the listener for \<open>backgroundSettingsChanged\<close> puts that object in the place of the
  engine's. A missing property reads as \<open>undefined\<close>, and arithmetic on \<open>undefined\<close>
  gives \<open>NaN\<close>.
\<close>

datatype js_index = Undefined | NaN | Num nat

text \<open>
  \<open>(i + 1) % n\<close>: \<open>undefined + 1\<close> and \<open>NaN + 1\<close> are \<open>NaN\<close>, and so is any
  remainder of \<open>NaN\<close> or by 0.
\<close>

definition advance :: "js_index \<Rightarrow> nat \<Rightarrow> js_index" where
  "advance i n = (case i of Num c \<Rightarrow> if n = 0 then NaN else Num ((c + 1) mod n) | _ \<Rightarrow> NaN)"



record upload_settings =
  up_images :: "string list"
  up_cycle :: string
  up_order :: string
  up_currentIndex :: js_index

record color_settings =
  color :: string

record gradient_settings =
  gradient_type :: string
  color1 :: string
  color2 :: string

text \<open>
  The constructor gives \<open>apiSettings\<close> no \<open>order\<close> and no \<open>cycle\<close>; both are read by
  the code, so both are optional fields here (\<open>None\<close> is \<open>undefined\<close>).
\<close>

record api_settings =
  source :: string
  apiKey :: string
  query :: string
  api_images :: "string list"
  api_currentIndex :: nat
  api_order :: "string option"
  api_cycle :: "string option"

record background_settings =
  backgroundType :: string
  uploadSettings :: upload_settings
  colorSettings :: color_settings
  gradientSettings :: gradient_settings
  apiSettings :: api_settings

text \<open>The inline style of the background container that the engine writes.\<close>

record style =
  transition :: string
  backgroundImage :: string
  backgroundColor :: string

text \<open>
  The engine: its \<open>settings\<close>, the container's style, and what storage holds under
  \<open>backgroundSettings\<close>.
\<close>

record engine =
  settings :: background_settings
  container :: style
  saved :: "background_settings option"

text \<open>
  What one call meets outside the engine: the value \<open>Math.random()\<close> returns, which
  image references decode when preloaded, what the API request yields (the image URLs
  mapped from its JSON, or the error of a failed request), and whether
  \<open>chrome.storage.sync.set\<close> succeeds.
\<close>

record env =
  math_random :: real
  decodes :: "string \<Rightarrow> bool"
  response :: "js_error + string list"
  writable :: bool

text \<open>
  An asynchronous method either returns or rejects; what it did to the engine before
  rejecting stays done.
\<close>

datatype outcome = Returned engine | Threw js_error engine

fun state_of :: "outcome \<Rightarrow> engine" where
  "state_of (Returned e) = e"
| "state_of (Threw err e) = e"

text \<open>The upload pool, its cursor and its order, read off the engine.\<close>

abbreviation pool :: "engine \<Rightarrow> string list" where
  "pool e \<equiv> up_images (uploadSettings (settings e))"



definition background_defaults :: background_settings where
  "background_defaults =
     \<lparr>backgroundType = ''upload'',
      uploadSettings =
        \<lparr>up_images = [], up_cycle = ''refresh'', up_order = ''random'', up_currentIndex = Num 0\<rparr>,
      colorSettings = \<lparr>color = ''#1a1a1a''\<rparr>,
      gradientSettings =
        \<lparr>gradient_type = ''linear'', color1 = ''#667eea'', color2 = ''#764ba2''\<rparr>,
      apiSettings =
        \<lparr>source = ''unsplash'', apiKey = '''', query = ''nature'', api_images = [],
         api_currentIndex = 0, api_order = None, api_cycle = None\<rparr>\<rparr>"

text \<open>\<open>saveSettings()\<close> of the engine: a failed write is logged and changes nothing.\<close>

definition saveBackgroundSettings :: "env \<Rightarrow> engine \<Rightarrow> engine" where
  "saveBackgroundSettings ev e = (if writable ev then e\<lparr>saved := Some (settings e)\<rparr> else e)"

definition applyColorBackground :: "engine \<Rightarrow> engine" where
  "applyColorBackground e =
     e\<lparr>container := (container e)
          \<lparr>backgroundImage := ''none'', backgroundColor := color (colorSettings (settings e))\<rparr>\<rparr>"

definition applyGradientBackground :: "engine \<Rightarrow> engine" where
  "applyGradientBackground e =
     (let g = gradientSettings (settings e);
          gradient =
            (if gradient_type g = ''linear''
             then ''linear-gradient(135deg, '' @ color1 g @ '', '' @ color2 g @ '')''
             else ''radial-gradient(circle, '' @ color1 g @ '', '' @ color2 g @ '')'')
      in e\<lparr>container := (container e)
             \<lparr>backgroundImage := gradient, backgroundColor := ''transparent''\<rparr>\<rparr>)"

text \<open>
  \<open>setBackgroundImage(imageUrl)\<close>: the image is preloaded; \<open>onload\<close> writes the
  container's style and resolves, \<open>onerror\<close> rejects with
  \<open>Error('Failed to load image')\<close>.
\<close>

definition setBackgroundImage :: "env \<Rightarrow> string \<Rightarrow> engine \<Rightarrow> outcome" where
  "setBackgroundImage ev imageUrl e =
     (if decodes ev imageUrl then
        Returned (e\<lparr>container :=
          \<lparr>transition = ''background-image 0.5s ease-in-out'',
           backgroundImage = ''url('' @ imageUrl @ '')'',
           backgroundColor = ''transparent''\<rparr>\<rparr>)
      else Threw (Error ''Failed to load image'') e)"

text \<open>\<open>images[imageIndex]\<close>: out of range it is \<open>undefined\<close>, which prints as such.\<close>

definition imageAt :: "string list \<Rightarrow> nat \<Rightarrow> string" where
  "imageAt images i = (if i < length images then images ! i else ''undefined'')"

text \<open>
  The same read with the cursor as index: \<open>images[undefined]\<close> and \<open>images[NaN]\<close>
  are \<open>undefined\<close> too.
\<close>

definition imageAtIndex :: "string list \<Rightarrow> js_index \<Rightarrow> string" where
  "imageAtIndex images i = (case i of Num k \<Rightarrow> imageAt images k | _ \<Rightarrow> ''undefined'')"

text \<open>
  The selection of \<open>applyUploadBackground\<close> on a non-empty pool: the index it picks and
  the upload settings it leaves. \<open>Math.floor(Math.random() * length)\<close> for order
  \<open>random\<close>; for any other order the cursor, which then advances modulo the length.
\<close>

definition uploadSelection :: "env \<Rightarrow> upload_settings \<Rightarrow> js_index \<times> upload_settings" where
  "uploadSelection ev up =
     (if up_order up = ''random''
      then (Num (nat \<lfloor>math_random ev * real (length (up_images up))\<rfloor>), up)
      else (up_currentIndex up,
            up\<lparr>up_currentIndex := advance (up_currentIndex up) (length (up_images up))\<rparr>))"

definition applyUploadBackground :: "env \<Rightarrow> engine \<Rightarrow> outcome" where
  "applyUploadBackground ev e =
     (let up = uploadSettings (settings e)
      in if length (up_images up) = 0 then Returned (applyColorBackground e)
         else
           (let sel = uploadSelection ev up;
                e1 = e\<lparr>settings := (settings e)\<lparr>uploadSettings := snd sel\<rparr>\<rparr>;
                imageUrl = imageAtIndex (up_images (snd sel)) (fst sel)
            in case setBackgroundImage ev imageUrl e1 of
                 Threw err e2 \<Rightarrow> Threw err e2
               | Returned e2 \<Rightarrow> Returned (saveBackgroundSettings ev e2)))"

text \<open>
  \<open>fetchApiImages()\<close>: a failed request throws before anything is assigned; a
  successful one stores the URLs (for the two known sources) and resets the cursor.
\<close>

definition fetchApiImages :: "env \<Rightarrow> engine \<Rightarrow> outcome" where
  "fetchApiImages ev e =
     (case response ev of
        Inl err \<Rightarrow> Threw err e
      | Inr urls \<Rightarrow>
          (let api = apiSettings (settings e);
               api1 = (if source api = ''unsplash'' \<or> source api = ''pexels''
                       then api\<lparr>api_images := urls\<rparr> else api)
           in Returned (e\<lparr>settings := (settings e)
                          \<lparr>apiSettings := api1\<lparr>api_currentIndex := 0\<rparr>\<rparr>\<rparr>)))"

definition apiSelection :: "env \<Rightarrow> api_settings \<Rightarrow> nat \<times> api_settings" where
  "apiSelection ev api =
     (if api_order api = Some ''random''
      then (nat \<lfloor>math_random ev * real (length (api_images api))\<rfloor>, api)
      else (api_currentIndex api,
            api\<lparr>api_currentIndex := (api_currentIndex api + 1) mod length (api_images api)\<rparr>))"

text \<open>The body of the \<open>try\<close> block of \<open>applyApiBackground\<close>.\<close>

definition api_try :: "env \<Rightarrow> engine \<Rightarrow> outcome" where
  "api_try ev e =
     (case (if length (api_images (apiSettings (settings e))) = 0 then fetchApiImages ev e
            else Returned e) of
        Threw err e1 \<Rightarrow> Threw err e1
      | Returned e1 \<Rightarrow>
          (let api = apiSettings (settings e1)
           in if length (api_images api) > 0 then
                (let sel = apiSelection ev api;
                     e2 = e1\<lparr>settings := (settings e1)\<lparr>apiSettings := snd sel\<rparr>\<rparr>;
                     imageUrl = imageAt (api_images (snd sel)) (fst sel)
                 in case setBackgroundImage ev imageUrl e2 of
                      Threw err e3 \<Rightarrow> Threw err e3
                    | Returned e3 \<Rightarrow> Returned (saveBackgroundSettings ev e3))
              else Returned e1))"

definition applyApiBackground :: "env \<Rightarrow> engine \<Rightarrow> outcome" where
  "applyApiBackground ev e =
     (if apiKey (apiSettings (settings e)) = '''' then Returned (applyColorBackground e)
      else case api_try ev e of
             Threw err e1 \<Rightarrow> Returned (applyColorBackground e1)
           | Returned e1 \<Rightarrow> Returned e1)"

text \<open>\<open>applyBackground()\<close>: the \<open>switch\<close> on the background type.\<close>

definition applyBackground :: "env \<Rightarrow> engine \<Rightarrow> outcome" where
  "applyBackground ev e =
     (let t = backgroundType (settings e)
      in if t = ''upload'' then applyUploadBackground ev e
         else if t = ''color'' then Returned (applyColorBackground e)
         else if t = ''gradient'' then Returned (applyGradientBackground e)
         else if t = ''api'' then applyApiBackground ev e
         else Returned (applyColorBackground e))"





section \<open>StatsTracker (the usage statistics module)\<close>

record session =
  date :: string
  duration :: nat
  tabsOpened :: nat

record stats =
  totalUsageTime :: nat
  tabsOpenedToday :: nat
  totalTabsOpened :: nat
  firstUseDate :: "string option"
  lastActiveDate :: "string option"
  trackersBlocked :: nat
  sessions :: "session list"

text \<open>The tracker: its \<open>stats\<close> and what storage holds under \<open>statsData\<close>.\<close>

record tracker =
  stats :: stats
  statsData :: "stats option"

text \<open>
  The calendar a call reads: \<open>new Date().toDateString()\<close>,
  \<open>new Date().toISOString()\<close>, and \<open>new Date(iso).toDateString()\<close> for a stored
  timestamp.
\<close>

record calendar =
  today :: string
  nowISO :: string
  dateStringOf :: "string \<Rightarrow> string"

definition saveStats :: "bool \<Rightarrow> tracker \<Rightarrow> tracker" where
  "saveStats can_write t = (if can_write then t\<lparr>statsData := Some (stats t)\<rparr> else t)"

text \<open>
  \<open>checkNewDay()\<close>: a stored date that is absent or empty reads as \<open>null\<close>, which
  differs from every date string.
\<close>

definition checkNewDay :: "calendar \<Rightarrow> bool \<Rightarrow> tracker \<Rightarrow> tracker" where
  "checkNewDay cal can_write t =
     (let lastActive =
            (case lastActiveDate (stats t) of
               None \<Rightarrow> None
             | Some d \<Rightarrow> if d = '''' then None else Some (dateStringOf cal d))
      in if lastActive \<noteq> Some (today cal) then
           saveStats can_write
             (t\<lparr>stats := (stats t)\<lparr>tabsOpenedToday := 0, lastActiveDate := Some (nowISO cal)\<rparr>\<rparr>)
         else t)"

text \<open>
  \<open>loadStats()\<close>: stored statistics replace the tracker's, the first-use date is
  initialised when unset, and the new-day check runs; without stored statistics, or when
  the read fails, nothing happens.
\<close>

definition loadStats :: "calendar \<Rightarrow> bool \<Rightarrow> bool \<Rightarrow> tracker \<Rightarrow> tracker" where
  "loadStats cal can_read can_write t =
     (if \<not> can_read then t
      else case statsData t of
             None \<Rightarrow> t
           | Some sd \<Rightarrow>
               (let first = (case firstUseDate sd of
                               None \<Rightarrow> Some (nowISO cal)
                             | Some d \<Rightarrow> if d = '''' then Some (nowISO cal) else Some d)
                in checkNewDay cal can_write (t\<lparr>stats := sd\<lparr>firstUseDate := first\<rparr>\<rparr>)))"

definition incrementTabCount :: "bool \<Rightarrow> tracker \<Rightarrow> tracker" where
  "incrementTabCount can_write t =
     saveStats can_write
       (t\<lparr>stats := (stats t)
            \<lparr>tabsOpenedToday := tabsOpenedToday (stats t) + 1,
             totalTabsOpened := totalTabsOpened (stats t) + 1\<rparr>\<rparr>)"

text \<open>
  The listener \<open>setupEventListeners\<close> adds to \<open>chrome.tabs.onCreated\<close>: it calls
  \<open>incrementTabCount\<close> and nothing else; the calendar is at hand but not read.
\<close>

definition onTabCreated :: "calendar \<Rightarrow> bool \<Rightarrow> tracker \<Rightarrow> tracker" where
  "onTabCreated cal can_write t = incrementTabCount can_write t"

section \<open>The modules after start-up\<close>

text \<open>
  The settings objects the constructors of ClockManager, PinnedAppsManager and
  BackgroundEngine build, as objects, and the page once every module has registered its
  listener and nothing is stored yet.
\<close>

definition clock_defaults_obj :: obj where
  "clock_defaults_obj =
     [(''showClock'', JBool True), (''showSeconds'', JBool False),
      (''use24HourFormat'', JBool False), (''showDate'', JBool True)]"

definition apps_defaults_obj :: obj where
  "apps_defaults_obj =
     [(''iconPadding'', JNum 16), (''iconTransparency'', JNum 1), (''showAppNames'', JBool True)]"

definition background_defaults_obj :: obj where
  "background_defaults_obj =
     [(''backgroundType'', JStr ''upload''),
      (''uploadSettings'', JObj
         [(''images'', JArr []), (''cycle'', JStr ''refresh''), (''order'', JStr ''random''),
          (''currentIndex'', JNum 0)]),
      (''colorSettings'', JObj [(''color'', JStr ''#1a1a1a'')]),
      (''gradientSettings'', JObj
         [(''type'', JStr ''linear''), (''color1'', JStr ''#667eea''),
          (''color2'', JStr ''#764ba2'')]),
      (''apiSettings'', JObj
         [(''source'', JStr ''unsplash''), (''apiKey'', JStr ''''),
          (''query'', JStr ''nature''), (''images'', JArr []), (''currentIndex'', JNum 0)])]"

definition initial_page :: page where
  "initial_page =
     \<lparr>storage = [], manager_settings = default_settings, status = None,
      clock_obj = clock_defaults_obj, apps_obj = apps_defaults_obj,
      background_obj = background_defaults_obj, tracking = True,
      listeners = module_listeners, dispatched = [], delivered = []\<rparr>"

section \<open>Objects on the heap: what \<open>getSettings()\<close> shares\<close>

text \<open>
  Where aliasing matters, objects live in a store: a value is a primitive or a
  reference to a cell, a cell is an object or an array, and the heap is the list of the
  cells allocated so far, a reference being an index into it.
\<close>

datatype val = VUndefined | VBool bool | VNum rat | VStr string | VRef nat

datatype cell = Object "(string \<times> val) list" | Array "val list"

type_synonym heap = "cell list"

definition deref :: "heap \<Rightarrow> nat \<Rightarrow> cell option" where
  "deref h a = (if a < length h then Some (h ! a) else None)"

text \<open>The own enumerable properties of a cell: an array's elements stand under their indices.\<close>

fun props :: "cell \<Rightarrow> (string \<times> val) list" where
  "props (Object kvs) = kvs"
| "props (Array xs) = zip (map toString [0..<length xs]) xs"

text \<open>
  \<open>getSettings()\<close>, the same in every module: \<open>return { ...this.settings }\<close>. A new
  object is allocated and receives the properties of the settings object, value by
  value: a property that holds a reference is copied as that reference.
\<close>

definition getSettings :: "heap \<Rightarrow> nat \<Rightarrow> heap \<times> val" where
  "getSettings h this_settings =
     (case deref h this_settings of
        None \<Rightarrow> (h @ [Object []], VRef (length h))
      | Some c \<Rightarrow> (h @ [Object (props c)], VRef (length h)))"

text \<open>
  Following a property path from a value, \<open>v.p1.p2...\<close>: a property of a primitive is
  \<open>undefined\<close>, and reading a property of \<open>undefined\<close> throws (\<open>None\<close>).
\<close>

fun follow :: "heap \<Rightarrow> val \<Rightarrow> string list \<Rightarrow> val option" where
  "follow h v [] = Some v"
| "follow h (VRef a) (k # ks) =
     (case deref h a of
        None \<Rightarrow> None
      | Some c \<Rightarrow> follow h (case map_of (props c) k of None \<Rightarrow> VUndefined | Some v \<Rightarrow> v) ks)"
| "follow h VUndefined (k # ks) = None"
| "follow h v (k # ks) = follow h VUndefined ks"

text \<open>The cell a path leads to, if it leads to one.\<close>

definition read_cell :: "heap \<Rightarrow> val \<Rightarrow> string list \<Rightarrow> cell option" where
  "read_cell h v path = (case follow h v path of Some (VRef a) \<Rightarrow> deref h a | _ \<Rightarrow> None)"

text \<open>
  A mutation made through a value: the holder follows a path from it and changes the
  cell found there in place (an assignment to a property, a \<open>delete\<close>, a \<open>push\<close>, a
  \<open>splice\<close>, ...). A path that throws, or that ends in a primitive, changes nothing.
\<close>

definition mutate :: "heap \<Rightarrow> val \<Rightarrow> string list \<Rightarrow> (cell \<Rightarrow> cell) \<Rightarrow> heap" where
  "mutate h v path change =
     (case follow h v path of
        Some (VRef a) \<Rightarrow> if a < length h then h[a := change (h ! a)] else h
      | _ \<Rightarrow> h)"

text \<open>Two such changes: \<open>o[k] = v\<close> on an object and \<open>xs.push(v)\<close> on an array.\<close>

fun set_prop :: "string \<Rightarrow> val \<Rightarrow> cell \<Rightarrow> cell" where
  "set_prop k v (Object kvs) = Object (AList.update k v kvs)"
| "set_prop k v (Array xs) = Array xs"

fun push :: "val \<Rightarrow> cell \<Rightarrow> cell" where
  "push v (Array xs) = Array (xs @ [v])"
| "push v (Object kvs) = Object kvs"

text \<open>A cell all of whose properties are primitives.\<close>

fun is_ref :: "val \<Rightarrow> bool" where
  "is_ref (VRef a) = True"
| "is_ref v = False"

definition flat :: "cell \<Rightarrow> bool" where
  "flat c = (filter is_ref (map snd (props c)) = [])"

text \<open>
  A heap without dangling references: every reference held in a cell points to a cell
  of the heap.
\<close>

definition in_heap :: "heap \<Rightarrow> val \<Rightarrow> bool" where
  "in_heap h v = (case v of VRef a \<Rightarrow> a < length h | _ \<Rightarrow> True)"

definition well_formed :: "heap \<Rightarrow> bool" where
  "well_formed h = list_all (\<lambda>c. list_all (in_heap h) (map snd (props c))) h"

text \<open>
  The object graphs the constructors of BackgroundEngine and ClockManager build, with
  the settings object at address 0.
\<close>

definition background_heap :: heap where
  "background_heap =
     [Object [(''backgroundType'', VStr ''upload''), (''uploadSettings'', VRef 1),
              (''colorSettings'', VRef 3), (''gradientSettings'', VRef 4),
              (''apiSettings'', VRef 5)],
      Object [(''images'', VRef 2), (''cycle'', VStr ''refresh''), (''order'', VStr ''random''),
              (''currentIndex'', VNum 0)],
      Array [],
      Object [(''color'', VStr ''#1a1a1a'')],
      Object [(''type'', VStr ''linear''), (''color1'', VStr ''#667eea''),
              (''color2'', VStr ''#764ba2'')],
      Object [(''source'', VStr ''unsplash''), (''apiKey'', VStr ''''),
              (''query'', VStr ''nature''), (''images'', VRef 6), (''currentIndex'', VNum 0)],
      Array []]"

definition clock_heap :: heap where
  "clock_heap =
     [Object [(''showClock'', VBool True), (''showSeconds'', VBool False),
              (''use24HourFormat'', VBool False), (''showDate'', VBool True)]]"

section \<open>Concrete inputs\<close>

text \<open>A settings document without the \<open>apps\<close> section.\<close>

definition without_apps :: obj where
  "without_apps =
     [(''clock'', default_clock), (''background'', default_background),
      (''stats'', default_stats)]"

text \<open>The page after the user has edited the apps section in the settings form.\<close>

definition edited_apps :: json where
  "edited_apps = JObj
     [(''showNames'', JBool False), (''padding'', JNum 14), (''transparency'', JNum (1 / 2)),
      (''gridColumns'', JNum 10), (''gridRows'', JNum 2)]"

definition edited_page :: page where
  "edited_page =
     initial_page\<lparr>manager_settings := AList.update ''apps'' edited_apps default_settings\<rparr>"

text \<open>
  A page left open over midnight: the tracker was last active on 1 March with five tabs
  counted, and the calendar now reads 2 March.
\<close>

definition midnight_calendar :: calendar where
  "midnight_calendar =
     \<lparr>today = ''Sat Mar 02 2024'', nowISO = ''2024-03-02T00:05:00.000Z'',
      dateStringOf = (\<lambda>iso. if take 10 iso = ''2024-03-01'' then ''Fri Mar 01 2024''
                             else ''Sat Mar 02 2024'')\<rparr>"

definition yesterday_tracker :: tracker where
  "yesterday_tracker =
     \<lparr>stats = \<lparr>totalUsageTime = 3600, tabsOpenedToday = 5, totalTabsOpened = 40,
               firstUseDate = Some ''2024-01-15T09:00:00.000Z'',
               lastActiveDate = Some ''2024-03-01T08:30:00.000Z'',
               trackersBlocked = 0, sessions = []\<rparr>,
      statsData = None\<rparr>"

text \<open>
  Engines with one uploaded image, with an API key and an empty API pool, and with three
  uploaded images in sequential order; an environment in which no image decodes, and one
  in which every image but \<open>b.png\<close> does and the API request fails.
\<close>

definition start_style :: style where
  "start_style = \<lparr>transition = '''', backgroundImage = '''', backgroundColor = ''''\<rparr>"

definition upload_engine :: engine where
  "upload_engine =
     \<lparr>settings = background_defaults
        \<lparr>uploadSettings :=
           \<lparr>up_images = [''data:image/png;base64,AAAA''], up_cycle = ''refresh'',
            up_order = ''random'', up_currentIndex = Num 0\<rparr>\<rparr>,
      container = start_style, saved = None\<rparr>"

definition api_engine :: engine where
  "api_engine =
     \<lparr>settings = background_defaults
        \<lparr>backgroundType := ''api'',
         apiSettings := (apiSettings background_defaults)\<lparr>apiKey := ''key''\<rparr>\<rparr>,
      container = start_style, saved = None\<rparr>"



definition broken_image_env :: env where
  "broken_image_env =
     \<lparr>math_random = 0, decodes = (\<lambda>url. False),
      response = Inr [''https://images.example/a.jpg''], writable = True\<rparr>"

definition loading_env :: env where
  "loading_env =
     \<lparr>math_random = 0, decodes = (\<lambda>url. url \<noteq> ''b.png''), response = Inl (Error ''offline''),
      writable = True\<rparr>"


text \<open>
  The engine as its constructor leaves it, and the container's style once the default
  colour has been applied to it.
\<close>

definition fresh_engine :: engine where
  "fresh_engine = \<lparr>settings = background_defaults, container = start_style, saved = None\<rparr>"

definition color_style :: style where
  "color_style = \<lparr>transition = '''', backgroundImage = ''none'', backgroundColor = ''#1a1a1a''\<rparr>"






section \<open>Properties of the clock\<close>

lemma toString_small: "n < 10 \<Longrightarrow> toString n = [digit_char n]"
  by (subst toString.simps) simp

lemma toString_two_digits:
  "10 \<le> n \<Longrightarrow> n < 100 \<Longrightarrow> toString n = [digit_char (n div 10), digit_char (n mod 10)]"
  by (subst toString.simps) (simp add: toString_small)

lemma padZero_two_digits:
  "n < 100 \<Longrightarrow> padZero n = [digit_char (n div 10), digit_char (n mod 10)]"
proof (cases "n < 10")
  case True
  then show ?thesis
    by (simp add: padZero_def padStart_def toString_small digit_char_def)
next
  case False
  assume "n < 100"
  with False show ?thesis
    by (simp add: padZero_def padStart_def toString_two_digits)
qed

lemma padZero_two: "n < 100 \<Longrightarrow> padZero n = two_digits n"
  by (simp add: padZero_two_digits two_digits_def)

text \<open>
  Claim C8. With the seconds hidden, hour 0 in 12-hour format renders as
  \<open>12:MM AM\<close>, hour 13 as \<open>01:MM PM\<close>, and hour 13 in 24-hour format as
  \<open>13:MM\<close>. For every hour of the day and every setting, the rendered string is the
  two-digit hour (the raw hour in 24-hour format; in 12-hour format the hour modulo 12,
  with 12 for 0), a colon, the minutes as two digits, the AM/PM suffix in 12-hour
  format, and, when seconds are shown, a colon and the seconds as two digits: minutes
  and seconds are always zero-padded to two digits.
\<close>

theorem clock_formatting:
  assumes "hours < 24" and "minutes < 60" and "seconds < 60"
  shows "(\<not> showSeconds st \<longrightarrow>
           updateClock (st\<lparr>use24HourFormat := False\<rparr>) 0 minutes seconds
             = ''12:'' @ two_digits minutes @ '' AM'' \<and>
           updateClock (st\<lparr>use24HourFormat := False\<rparr>) 13 minutes seconds
             = ''01:'' @ two_digits minutes @ '' PM'' \<and>
           updateClock (st\<lparr>use24HourFormat := True\<rparr>) 13 minutes seconds
             = ''13:'' @ two_digits minutes) \<and>
         updateClock st hours minutes seconds =
           two_digits (if use24HourFormat st then hours
                       else if hours mod 12 \<noteq> 0 then hours mod 12 else 12)
           @ '':'' @ two_digits minutes
           @ (if use24HourFormat st then '''' else if hours \<ge> 12 then '' PM'' else '' AM'')
           @ (if showSeconds st then '':'' @ two_digits seconds else '''')"
proof -
  have m: "padZero minutes = two_digits minutes" and s: "padZero seconds = two_digits seconds"
    using assms by (simp_all add: padZero_two)
  have h: "padZero hours = two_digits hours"
    using assms by (simp add: padZero_two)
  have h12: "padZero (hours mod 12) = two_digits (hours mod 12)"
    by (simp add: padZero_two)
  have c12: "padZero 12 = ''12''" and c13: "padZero 13 = ''13''"
    and c1: "padZero (Suc 0) = ''01''"
    by (simp_all add: padZero_two_digits digit_char_def)
  have t12: "two_digits 12 = ''12''"
    by (simp add: two_digits_def digit_char_def)
  show ?thesis
    by (simp add: updateClock_def Let_def m s h h12 c12 c13 c1 t12)
qed

theorem clock_formatting_witness:
  "updateClock clock_defaults 0 7 30 = ''12:07 AM'' \<and>
   updateClock clock_defaults 13 7 30 = ''01:07 PM'' \<and>
   updateClock (clock_defaults\<lparr>use24HourFormat := True\<rparr>) 13 7 30 = ''13:07'' \<and>
   updateClock (clock_defaults\<lparr>use24HourFormat := True, showSeconds := True\<rparr>) 9 5 3
     = ''09:05:03''"
  using clock_formatting [of 23 7 30 clock_defaults]
    clock_formatting [of 9 5 3 "clock_defaults\<lparr>use24HourFormat := True, showSeconds := True\<rparr>"]
  by (simp add: clock_defaults_def two_digits_def digit_char_def)

text \<open>
  Claim C10. \<open>utils.formatTime\<close> and \<open>updateClock\<close> render the same time under the
  same flags. They do not: in 12-hour format with seconds shown, \<open>formatTime\<close> puts the
  seconds before the AM/PM suffix and \<open>updateClock\<close> appends them after it. At 13:05:09
  the first gives \<open>01:05:09 PM\<close> and the second \<open>01:05 PM:09\<close>.
\<close>

theorem formatTime_updateClock_differ:
  "formatTime 13 5 9 False True = ''01:05:09 PM'' \<and>
   updateClock (clock_defaults\<lparr>showSeconds := True\<rparr>) 13 5 9 = ''01:05 PM:09''"
  by (simp add: formatTime_def updateClock_def clock_defaults_def padZero_def padStart_def
      toString_small toString_two_digits digit_char_def Let_def)

text \<open>
  In 24-hour format, and whenever the seconds are hidden, the two functions agree on
  every input.
\<close>

lemma formatTime_updateClock_agree:
  "use24HourFormat st \<or> \<not> showSeconds st \<Longrightarrow>
   formatTime h m s (use24HourFormat st) (showSeconds st) = updateClock st h m s"
  by (auto simp add: formatTime_def updateClock_def padZero_def Let_def)

section \<open>Properties of the settings document\<close>

text \<open>
  A spread of an object with distinct keys reads, under every key, as the object's value
  where it has the key and as the target's value where it has not.
\<close>

lemma map_of_foldl_update:
  "distinct (map fst kvs) \<Longrightarrow>
   map_of (foldl (\<lambda>acc kv. AList.update (fst kv) (snd kv) acc) a kvs) k =
     (case map_of kvs k of None \<Rightarrow> map_of a k | Some v \<Rightarrow> Some v)"
proof (induction kvs arbitrary: a)
  case Nil
  then show ?case by simp
next
  case (Cons kv kvs)
  obtain k' v' where kv: "kv = (k', v')" by (cases kv)
  from Cons.prems kv have d: "distinct (map fst kvs)" and nk: "k' \<notin> fst ` set kvs"
    by auto
  from nk have none: "map_of kvs k' = None"
    by (simp add: map_of_eq_None_iff)
  show ?case
    using Cons.IH [OF d, of "AList.update k' v' a"] none
    by (auto simp add: kv update_conv' split: option.splits)
qed

lemma map_of_spread:
  "distinct (map fst doc) \<Longrightarrow>
   map_of (spread a (JObj doc)) k =
     (case map_of doc k of None \<Rightarrow> map_of a k | Some v \<Rightarrow> Some v)"
  by (simp add: spread_def map_of_foldl_update)

text \<open>
  Claim C5. When storage holds a settings document (an object, its keys distinct) and
  the SettingsManager still has the settings of its constructor, \<open>loadSettings\<close>
  leaves, under every key and so under each of \<open>clock\<close>, \<open>apps\<close>, \<open>background\<close> and
  \<open>stats\<close>: the hardcoded default where the stored document lacks the key, and the
  stored value itself, whole and unmerged, where it has the key.
\<close>

theorem load_merges_sections:
  assumes "map_of (storage p) ''newTabSettings'' = Some (JObj doc)"
    and "distinct (map fst doc)"
    and "manager_settings p = default_settings"
  shows "(map_of doc k = None \<longrightarrow>
            map_of (manager_settings (loadSettings True p)) k = map_of default_settings k) \<and>
         (\<forall>v. map_of doc k = Some v \<longrightarrow>
            map_of (manager_settings (loadSettings True p)) k = Some v)"
  using assms by (simp add: loadSettings_def map_of_spread)

theorem load_merges_sections_witness:
  "map_of (manager_settings (loadSettings True
      (initial_page\<lparr>storage := [(''newTabSettings'',
         JObj [(''clock'', JObj [(''format'', JStr ''24'')]), (''stats'', JNull)])]\<rparr>))) ''clock''
     = Some (JObj [(''format'', JStr ''24'')]) \<and>
   map_of (manager_settings (loadSettings True
      (initial_page\<lparr>storage := [(''newTabSettings'',
         JObj [(''clock'', JObj [(''format'', JStr ''24'')]), (''stats'', JNull)])]\<rparr>))) ''apps''
     = Some default_apps"
  using load_merges_sections [of
      "initial_page\<lparr>storage := [(''newTabSettings'',
         JObj [(''clock'', JObj [(''format'', JStr ''24'')]), (''stats'', JNull)])]\<rparr>"
      "[(''clock'', JObj [(''format'', JStr ''24'')]), (''stats'', JNull)]" "''clock''"]
    load_merges_sections [of
      "initial_page\<lparr>storage := [(''newTabSettings'',
         JObj [(''clock'', JObj [(''format'', JStr ''24'')]), (''stats'', JNull)])]\<rparr>"
      "[(''clock'', JObj [(''format'', JStr ''24'')]), (''stats'', JNull)]" "''apps''"]
  by (simp add: initial_page_def default_settings_def)

lemma validate_props_missing:
  "k \<in> set ps \<Longrightarrow> map_of doc k = None \<Longrightarrow>
   \<exists>prop \<in> set ps.
     validate_props ps (JObj doc) = Some (Error (''Missing required property: '' @ prop))"
  by (induction ps) (auto simp add: getProp_def truthy_opt_def)

text \<open>
  Claim C6. When the imported file parses to an object that lacks one of the four
  required keys, \<open>importSettings\<close> changes nothing but the status line, which shows
  the error naming a missing required property: the settings in memory, everything in
  storage, the modules' settings and the events dispatched are as before.
\<close>

theorem import_missing_section_rejected:
  assumes "parse content = Inr (JObj doc)" and "k \<in> set required" and "map_of doc k = None"
  shows "(\<exists>prop \<in> set required.
            importSettings parse can_write (Some content) p =
              p\<lparr>status := Some (''Failed to import settings: Missing required property: '' @ prop,
                                ''error'')\<rparr>) \<and>
         manager_settings (importSettings parse can_write (Some content) p) = manager_settings p \<and>
         storage (importSettings parse can_write (Some content) p) = storage p \<and>
         dispatched (importSettings parse can_write (Some content) p) = dispatched p"
proof -
  from validate_props_missing [OF assms(2,3)]
  obtain q where pr: "q \<in> set required"
    and v: "validateSettings (JObj doc) = Some (Error (''Missing required property: '' @ q))"
    by (auto simp add: validateSettings_def)
  have eq: "importSettings parse can_write (Some content) p =
      p\<lparr>status := Some (''Failed to import settings: Missing required property: '' @ q,
                        ''error'')\<rparr>"
    using assms(1) v by (simp add: importSettings_def import_failed_def showStatus_def)
  from pr eq show ?thesis by auto
qed

theorem import_missing_section_rejected_witness:
  "(importSettings (\<lambda>t. Inr (JObj without_apps)) True (Some ''settings without apps'')
      initial_page
     = initial_page\<lparr>status :=
         Some (''Failed to import settings: Missing required property: apps'', ''error'')\<rparr>) \<and>
   storage (importSettings (\<lambda>t. Inr (JObj without_apps)) True (Some ''settings without apps'')
              initial_page) = []"
proof -
  have a: "(\<lambda>t::string. (Inr (JObj without_apps) :: js_error + json)) ''settings without apps''
             = Inr (JObj without_apps)"
    by simp
  have b: "''apps'' \<in> set required"
    by (simp add: required_def)
  have c: "map_of without_apps ''apps'' = None"
    by (simp add: without_apps_def)
  from import_missing_section_rejected [of "\<lambda>t. Inr (JObj without_apps)"
      "''settings without apps''" without_apps "''apps''" True initial_page, OF a b c]
  have st: "storage (importSettings (\<lambda>t. Inr (JObj without_apps)) True
              (Some ''settings without apps'') initial_page) = storage initial_page"
    by simp
  have ev: "importSettings (\<lambda>t. Inr (JObj without_apps)) True (Some ''settings without apps'')
              initial_page
     = initial_page\<lparr>status :=
         Some (''Failed to import settings: Missing required property: apps'', ''error'')\<rparr>"
    by (simp add: importSettings_def validateSettings_def required_def without_apps_def
        getProp_def truthy_opt_def default_clock_def import_failed_def showStatus_def)
  from st ev show ?thesis
    by (simp add: initial_page_def)
qed

section \<open>Properties of the change notifications\<close>

text \<open>
  Claim C1. A successful save publishes one notification per section, and every module
  that owns a section receives its own and re-applies it. The first half holds: four
  events are dispatched. The second fails for PinnedAppsManager: the SettingsManager
  dispatches \<open>appSettingsChanged\<close> and PinnedAppsManager listens for
  \<open>appsSettingsChanged\<close>, so its listener never runs. After the user has edited the apps
  section and saved, the other three listeners have run and PinnedAppsManager still has
  the settings of its constructor.
\<close>

theorem apps_notification_not_delivered:
  "map fst (dispatched (saveSettings True edited_page)) =
     [''clockSettingsChanged'', ''appSettingsChanged'', ''backgroundSettingsChanged'',
      ''statsSettingsChanged''] \<and>
   map fst (delivered (saveSettings True edited_page)) =
     [ClockListener, BackgroundListener, StatsListener] \<and>
   apps_obj (saveSettings True edited_page) = apps_defaults_obj \<and>
   map_of (storage (saveSettings True edited_page)) ''newTabSettings''
      = Some (JObj (manager_settings edited_page))"
  by code_simp

text \<open>
  For every page: a successful save dispatches exactly the four events, in this order;
  and with the modules' listeners registered as they are, no save changes the settings
  of PinnedAppsManager.
\<close>

lemma handle_keeps_traces:
  "dispatched (handle w l d p) = dispatched p \<and> listeners (handle w l d p) = listeners p"
  by (cases l) (simp_all add: Let_def storage_set_def split: sum.splits)

lemma invoke_fold_keeps:
  "dispatched (foldl (invoke w d) p ls) = dispatched p \<and>
   listeners (foldl (invoke w d) p ls) = listeners p"
  by (induction ls arbitrary: p) (simp_all add: invoke_def handle_keeps_traces)

lemma dispatchEvent_trace:
  "dispatched (dispatchEvent w topic d p) = dispatched p @ [(topic, d)] \<and>
   listeners (dispatchEvent w topic d p) = listeners p"
  by (simp add: dispatchEvent_def invoke_fold_keeps)

lemma save_publishes_four_sections:
  "map fst (dispatched (saveSettings True p)) =
     map fst (dispatched p) @
       [''clockSettingsChanged'', ''appSettingsChanged'', ''backgroundSettingsChanged'',
        ''statsSettingsChanged'']"
  by (simp add: saveSettings_def dispatchSettingsEvents_def Let_def dispatchEvent_trace
      showStatus_def)

lemma handle_other_keeps_apps: "l \<noteq> PinnedAppsListener \<Longrightarrow> apps_obj (handle w l d p) = apps_obj p"
  by (cases l) (simp_all add: Let_def storage_set_def split: sum.splits)

lemma dispatch_without_apps_listener:
  "PinnedAppsListener \<notin> snd ` set (filter (\<lambda>reg. fst reg = topic) (listeners p)) \<Longrightarrow>
   apps_obj (dispatchEvent w topic d p) = apps_obj p"
proof -
  have "PinnedAppsListener \<notin> set ls \<Longrightarrow> apps_obj (foldl (invoke w d) q ls) = apps_obj q"
    for ls q
    by (induction ls arbitrary: q) (auto simp add: invoke_def handle_other_keeps_apps)
  then show "PinnedAppsListener \<notin> snd ` set (filter (\<lambda>reg. fst reg = topic) (listeners p)) \<Longrightarrow>
   apps_obj (dispatchEvent w topic d p) = apps_obj p"
    by (simp add: dispatchEvent_def)
qed

lemma dispatch_keeps_apps:
  assumes "listeners p = module_listeners" and "topic \<noteq> ''appsSettingsChanged''"
  shows "apps_obj (dispatchEvent w topic d p) = apps_obj p \<and>
         listeners (dispatchEvent w topic d p) = module_listeners"
proof -
  from assms
  have "PinnedAppsListener \<notin> snd ` set (filter (\<lambda>reg. fst reg = topic) (listeners p))"
    by (auto simp add: module_listeners_def)
  then show ?thesis
    using assms(1) by (simp add: dispatch_without_apps_listener dispatchEvent_trace)
qed

lemma save_never_reaches_pinned_apps:
  assumes "listeners p = module_listeners"
  shows "apps_obj (saveSettings w p) = apps_obj p"
proof (cases w)
  case False
  then show ?thesis by (simp add: saveSettings_def showStatus_def)
next
  case True
  define st where "st = manager_settings p"
  define p0 where "p0 = showStatus ''Settings saved successfully!'' ''success''
     (p\<lparr>storage := AList.update ''newTabSettings'' (JObj (manager_settings p)) (storage p)\<rparr>)"
  define p1 where "p1 = dispatchEvent True ''clockSettingsChanged'' (section_detail st ''clock'') p0"
  define p2 where "p2 = dispatchEvent True ''appSettingsChanged'' (section_detail st ''apps'') p1"
  define p3 where
    "p3 = dispatchEvent True ''backgroundSettingsChanged'' (section_detail st ''background'') p2"
  define p4 where "p4 = dispatchEvent True ''statsSettingsChanged'' (section_detail st ''stats'') p3"
  have l0: "listeners p0 = module_listeners" and a0: "apps_obj p0 = apps_obj p"
    and m0: "manager_settings p0 = st"
    using assms by (simp_all add: p0_def showStatus_def st_def)
  from dispatch_keeps_apps [OF l0, of "''clockSettingsChanged''" True "section_detail st ''clock''"]
  have l1: "listeners p1 = module_listeners" and a1: "apps_obj p1 = apps_obj p0"
    by (simp_all add: p1_def)
  from dispatch_keeps_apps [OF l1, of "''appSettingsChanged''" True "section_detail st ''apps''"]
  have l2: "listeners p2 = module_listeners" and a2: "apps_obj p2 = apps_obj p1"
    by (simp_all add: p2_def)
  from dispatch_keeps_apps [OF l2, of "''backgroundSettingsChanged''" True
      "section_detail st ''background''"]
  have l3: "listeners p3 = module_listeners" and a3: "apps_obj p3 = apps_obj p2"
    by (simp_all add: p3_def)
  from dispatch_keeps_apps [OF l3, of "''statsSettingsChanged''" True "section_detail st ''stats''"]
  have a4: "apps_obj p4 = apps_obj p3"
    by (simp_all add: p4_def)
  have "saveSettings w p = p4"
    using True
    by (simp add: saveSettings_def dispatchSettingsEvents_def Let_def m0
        p4_def p3_def p2_def p1_def p0_def [symmetric])
  with a0 a1 a2 a3 a4 show ?thesis by simp
qed

section \<open>Properties of the statistics\<close>

text \<open>
  Claim C7. On a tab-creation event with a stored last-active date that differs from
  today's, the daily counter is reset and ends at 1. It does not: the listener only
  increments. With five tabs counted on 1 March and the event arriving on 2 March, the
  daily counter becomes 6, the lifetime counter 41, and the stored date stays; the reset
  exists only in \<open>checkNewDay\<close>, which \<open>loadStats\<close> calls and the listener does not.
\<close>

theorem tab_created_on_new_day:
  "dateStringOf midnight_calendar ''2024-03-01T08:30:00.000Z'' \<noteq> today midnight_calendar \<and>
   tabsOpenedToday (stats (onTabCreated midnight_calendar True yesterday_tracker)) = 6 \<and>
   totalTabsOpened (stats (onTabCreated midnight_calendar True yesterday_tracker)) = 41 \<and>
   lastActiveDate (stats (onTabCreated midnight_calendar True yesterday_tracker))
     = Some ''2024-03-01T08:30:00.000Z'' \<and>
   tabsOpenedToday (stats (checkNewDay midnight_calendar True yesterday_tracker)) = 0"
  by (simp add: onTabCreated_def incrementTabCount_def saveStats_def checkNewDay_def
      midnight_calendar_def yesterday_tracker_def)

text \<open>Every tab-creation event adds one to both counters, whatever the calendar says.\<close>

lemma tab_created_counters:
  "tabsOpenedToday (stats (onTabCreated cal w t)) = tabsOpenedToday (stats t) + 1 \<and>
   totalTabsOpened (stats (onTabCreated cal w t)) = totalTabsOpened (stats t) + 1"
  by (simp add: onTabCreated_def incrementTabCount_def saveStats_def)

text \<open>
  The reset happens on the load path: when the stored statistics carry a last-active
  date of another day, \<open>loadStats\<close> resets the daily counter, and a tab-creation event
  after that load ends at 1.
\<close>

lemma load_then_tab_created:
  assumes "statsData t = Some sd" and "lastActiveDate sd = Some d" and "d \<noteq> ''''"
    and "dateStringOf cal d \<noteq> today cal"
  shows "tabsOpenedToday (stats (onTabCreated cal w (loadStats cal True w t))) = 1"
  using assms
  by (simp add: onTabCreated_def incrementTabCount_def loadStats_def checkNewDay_def
      saveStats_def Let_def)

section \<open>Properties of the background engine\<close>

text \<open>
  Claim C2. When the image picked fails to decode, the caller falls back to the solid
  colour and nothing escapes \<open>applyBackground\<close>. In API mode this holds: the
  \<open>try\<close> block catches the rejection and the colour is applied. In upload mode it does
  not: \<open>applyUploadBackground\<close> awaits \<open>setBackgroundImage\<close> outside any \<open>try\<close>, so
  \<open>applyBackground\<close> rejects with the load error and the container keeps the style it
  had.
\<close>

theorem upload_image_failure_escapes:
  "applyBackground broken_image_env upload_engine
     = Threw (Error ''Failed to load image'') upload_engine \<and>
   container (state_of (applyBackground broken_image_env upload_engine)) = start_style \<and>
   applyBackground broken_image_env api_engine
     = Returned (applyColorBackground
         (api_engine\<lparr>settings := (settings api_engine)
            \<lparr>apiSettings := (apiSettings (settings api_engine))
               \<lparr>api_images := [''https://images.example/a.jpg''],
                api_currentIndex := 0\<rparr>\<rparr>\<rparr>))"
  by (simp add: applyBackground_def applyUploadBackground_def applyApiBackground_def api_try_def
      fetchApiImages_def setBackgroundImage_def uploadSelection_def apiSelection_def imageAt_def
      broken_image_env_def upload_engine_def api_engine_def background_defaults_def Let_def
      start_style_def applyColorBackground_def)

text \<open>
  For every engine and environment in which no image decodes: in upload mode with a
  non-empty pool \<open>applyBackground\<close> rejects and leaves the container as it was; in API
  mode with a key and a non-empty pool it returns with the colour applied.
\<close>

lemma upload_decode_failure_escapes:
  assumes "backgroundType (settings e) = ''upload''" and "pool e \<noteq> []"
    and "\<And>url. \<not> decodes ev url"
  shows "\<exists>e'. applyBackground ev e = Threw (Error ''Failed to load image'') e' \<and>
              container e' = container e"
  using assms
  by (simp add: applyBackground_def applyUploadBackground_def setBackgroundImage_def Let_def)

lemma api_decode_failure_falls_back:
  assumes "backgroundType (settings e) = ''api''" and "apiKey (apiSettings (settings e)) \<noteq> ''''"
    and "api_images (apiSettings (settings e)) \<noteq> []" and "\<And>url. \<not> decodes ev url"
  shows "\<exists>e'. applyBackground ev e = Returned (applyColorBackground e')"
  using assms
  by (auto simp add: applyBackground_def applyApiBackground_def api_try_def
      setBackgroundImage_def Let_def)

text \<open>
  Claim C9. In upload mode with no images, in API mode without an API key, and in API
  mode with a key, an empty pool and a request that fails, \<open>applyBackground\<close> returns
  (it does not reject), the engine is the one \<open>applyColorBackground\<close> leaves, and the
  container shows no image over the configured colour.
\<close>

theorem empty_pool_falls_back_to_color:
  assumes "backgroundType (settings e) = ''upload'' \<and> up_images (uploadSettings (settings e)) = []
           \<or> backgroundType (settings e) = ''api'' \<and>
             (apiKey (apiSettings (settings e)) = '''' \<or>
              api_images (apiSettings (settings e)) = [] \<and> response ev = Inl err)"
  shows "applyBackground ev e = Returned (applyColorBackground e) \<and>
         backgroundImage (container (applyColorBackground e)) = ''none'' \<and>
         backgroundColor (container (applyColorBackground e)) = color (colorSettings (settings e))"
  using assms
  by (auto simp add: applyBackground_def applyUploadBackground_def applyApiBackground_def
      api_try_def fetchApiImages_def applyColorBackground_def Let_def)

theorem empty_pool_falls_back_to_color_witness:
  "applyBackground loading_env fresh_engine = Returned (fresh_engine\<lparr>container := color_style\<rparr>) \<and>
   applyBackground loading_env
       (fresh_engine\<lparr>settings := background_defaults\<lparr>backgroundType := ''api''\<rparr>\<rparr>)
     = Returned (fresh_engine\<lparr>settings := background_defaults\<lparr>backgroundType := ''api''\<rparr>,
                              container := color_style\<rparr>) \<and>
   applyBackground loading_env api_engine = Returned (api_engine\<lparr>container := color_style\<rparr>)"
proof -
  have a: "backgroundType (settings fresh_engine) = ''upload'' \<and>
           up_images (uploadSettings (settings fresh_engine)) = []
           \<or> backgroundType (settings fresh_engine) = ''api'' \<and>
             (apiKey (apiSettings (settings fresh_engine)) = '''' \<or>
              api_images (apiSettings (settings fresh_engine)) = [] \<and>
              response loading_env = Inl (Error ''offline''))"
    by (simp add: fresh_engine_def background_defaults_def)
  let ?nokey = "fresh_engine\<lparr>settings := background_defaults\<lparr>backgroundType := ''api''\<rparr>\<rparr>"
  have b: "backgroundType (settings ?nokey) = ''upload'' \<and>
           up_images (uploadSettings (settings ?nokey)) = []
           \<or> backgroundType (settings ?nokey) = ''api'' \<and>
             (apiKey (apiSettings (settings ?nokey)) = '''' \<or>
              api_images (apiSettings (settings ?nokey)) = [] \<and>
              response loading_env = Inl (Error ''offline''))"
    by (simp add: fresh_engine_def background_defaults_def)
  have c: "backgroundType (settings api_engine) = ''upload'' \<and>
           up_images (uploadSettings (settings api_engine)) = []
           \<or> backgroundType (settings api_engine) = ''api'' \<and>
             (apiKey (apiSettings (settings api_engine)) = '''' \<or>
              api_images (apiSettings (settings api_engine)) = [] \<and>
              response loading_env = Inl (Error ''offline''))"
    by (simp add: api_engine_def background_defaults_def loading_env_def)
  from empty_pool_falls_back_to_color [OF a] empty_pool_falls_back_to_color [OF b]
    empty_pool_falls_back_to_color [OF c]
  show ?thesis
    by (simp add: applyColorBackground_def fresh_engine_def api_engine_def
        background_defaults_def start_style_def color_style_def)
qed

text \<open>
  A request that succeeds with no URLs is a different case: the pool stays empty, the
  call returns, and the container is left as it was.
\<close>

lemma empty_fetch_renders_nothing:
  assumes "backgroundType (settings e) = ''api''" and "apiKey (apiSettings (settings e)) \<noteq> ''''"
    and "api_images (apiSettings (settings e)) = []" and "response ev = Inr []"
  shows "\<exists>e'. applyBackground ev e = Returned e' \<and> container e' = container e"
  using assms
  by (simp add: applyBackground_def applyApiBackground_def api_try_def fetchApiImages_def
      Let_def)















section \<open>Properties of \<open>getSettings()\<close>\<close>

lemma follow_primitive_any: "\<not> is_ref v \<Longrightarrow> follow h2 v ks = follow h v ks"
proof (cases ks)
  case Nil
  then show ?thesis by simp
next
  case (Cons k ks')
  have u: "follow h2 VUndefined ks' = follow h VUndefined ks'"
    by (cases ks') simp_all
  assume "\<not> is_ref v"
  with Cons u show ?thesis by (cases v) simp_all
qed

lemma well_formed_lookup:
  assumes "well_formed h" and "a < length h"
  shows "in_heap h (case map_of (props (h ! a)) k of None \<Rightarrow> VUndefined | Some v \<Rightarrow> v)"
proof (cases "map_of (props (h ! a)) k")
  case None
  then show ?thesis by (simp add: in_heap_def)
next
  case (Some v)
  from assms have all: "list_all (in_heap h) (map snd (props (h ! a)))"
    by (simp add: well_formed_def list_all_length)
  from Some have "(k, v) \<in> set (props (h ! a))"
    by (rule map_of_SomeD)
  then have "v \<in> set (map snd (props (h ! a)))"
    by force
  with all have "in_heap h v"
    by (simp only: list_all_iff)
  with Some show ?thesis by simp
qed

lemma follow_frame:
  assumes "well_formed h"
  shows "in_heap h v \<Longrightarrow>
         follow (h @ ext) v path = follow h v path \<and>
         (\<forall>b. follow h v path = Some (VRef b) \<longrightarrow> b < length h)"
proof (induction path arbitrary: v)
  case Nil
  then show ?case by (auto simp add: in_heap_def)
next
  case (Cons k ks)
  show ?case
  proof (cases v)
    case (VRef a)
    with Cons.prems have a: "a < length h" by (simp add: in_heap_def)
    let ?v = "case map_of (props (h ! a)) k of None \<Rightarrow> VUndefined | Some v \<Rightarrow> v"
    have "in_heap h ?v"
      using assms a by (rule well_formed_lookup)
    from Cons.IH [OF this] a VRef show ?thesis
      by (simp add: deref_def nth_append)
  next
    case VUndefined
    then show ?thesis by simp
  next
    case (VBool x)
    then show ?thesis by (cases ks) simp_all
  next
    case (VNum x)
    then show ?thesis by (cases ks) simp_all
  next
    case (VStr x)
    then show ?thesis by (cases ks) simp_all
  qed
qed

lemma read_cell_frame:
  assumes "well_formed h" and "a < length h"
  shows "read_cell (h @ ext) (VRef a) path = read_cell h (VRef a) path"
proof -
  have i: "in_heap h (VRef a)" using assms(2) by (simp add: in_heap_def)
  note f = follow_frame [OF assms(1) i, of ext path]
  show ?thesis
  proof (cases "follow h (VRef a) path")
    case None
    with f show ?thesis by (simp add: read_cell_def)
  next
    case (Some v)
    show ?thesis
    proof (cases v)
      case (VRef b)
      with Some f have "b < length h" by simp
      with Some f VRef show ?thesis
        by (simp add: read_cell_def deref_def nth_append)
    qed (use Some f in \<open>simp_all add: read_cell_def\<close>)
  qed
qed

lemma mutate_top_level:
  "a < length h \<Longrightarrow>
   mutate (fst (getSettings h a)) (snd (getSettings h a)) [] change
     = h @ [change (Object (props (h ! a)))]"
  by (simp add: getSettings_def deref_def mutate_def)

lemma getSettings_valid:
  "a < length h \<Longrightarrow> getSettings h a = (h @ [Object (props (h ! a))], VRef (length h))"
  by (simp add: getSettings_def deref_def)

lemma follow_primitive: "\<not> is_ref v \<Longrightarrow> follow h v ks \<noteq> Some (VRef a)"
proof (cases ks)
  case Nil
  assume "\<not> is_ref v"
  with Nil show ?thesis by (cases v) simp_all
next
  case (Cons k ks')
  have u: "follow h VUndefined ks' \<noteq> Some (VRef a)"
    by (cases ks') simp_all
  assume "\<not> is_ref v"
  with Cons u show ?thesis by (cases v) simp_all
qed

lemma flat_lookup:
  "flat c \<Longrightarrow> \<not> is_ref (case map_of (props c) k of None \<Rightarrow> VUndefined | Some v \<Rightarrow> v)"
proof (cases "map_of (props c) k")
  case None
  then show ?thesis by simp
next
  case (Some v)
  assume f: "flat c"
  from Some have "v \<in> set (map snd (props c))"
    by (auto dest: map_of_SomeD intro: rev_image_eqI)
  with f have "\<not> is_ref v"
    by (auto simp add: flat_def filter_empty_conv)
  with Some show ?thesis by simp
qed

lemma mutate_flat_copy:
  assumes "a < length h" and "flat (h ! a)" and "path \<noteq> []"
  shows "mutate (fst (getSettings h a)) (snd (getSettings h a)) path change
           = h @ [Object (props (h ! a))]"
proof -
  let ?h1 = "h @ [Object (props (h ! a))]"
  from assms(3) obtain k ks where p: "path = k # ks" by (cases path) auto
  have "follow ?h1 (VRef (length h)) (k # ks) =
      follow ?h1 (case map_of (props (h ! a)) k of None \<Rightarrow> VUndefined | Some v \<Rightarrow> v) ks"
    by (simp add: deref_def)
  with follow_primitive [OF flat_lookup [OF assms(2)]]
  have "\<And>b. follow ?h1 (VRef (length h)) path \<noteq> Some (VRef b)"
    by (simp add: p)
  then have "mutate ?h1 (VRef (length h)) path change = ?h1"
    by (auto simp add: mutate_def split: option.splits val.splits)
  then show ?thesis
    using assms(1) by (simp add: getSettings_valid)
qed

lemma mutate_copy_appends:
  assumes "a < length h" and "path = [] \<or> flat (h ! a)"
  shows "\<exists>c. mutate (fst (getSettings h a)) (snd (getSettings h a)) path change = h @ [c]"
proof (cases "path = []")
  case True
  with assms(1) show ?thesis by (simp add: mutate_top_level)
next
  case False
  with assms have "flat (h ! a)" by simp
  from mutate_flat_copy [OF assms(1) this False] show ?thesis by blast
qed

text \<open>
  Claim C3, as amended. \<open>getSettings()\<close> returns a reference to a newly allocated
  object that carries the properties of the settings object. A mutation made through
  the returned value leaves every cell that existed before as it was, and with it (on a
  heap without dangling references) everything the module reads from its settings along
  any path, in two cases: when it
  changes the returned object itself (assigning, adding or deleting its properties),
  and, whatever path it follows, when the settings object holds only primitives, as in
  ClockManager and PinnedAppsManager.
\<close>

theorem getSettings_copy_is_shallow:
  assumes "this_settings < length h" and "path = [] \<or> flat (h ! this_settings)"
  shows "snd (getSettings h this_settings) = VRef (length h) \<and>
         read_cell (fst (getSettings h this_settings)) (snd (getSettings h this_settings)) []
           = Some (Object (props (h ! this_settings))) \<and>
         take (length h)
           (mutate (fst (getSettings h this_settings)) (snd (getSettings h this_settings))
              path change) = h \<and>
         (well_formed h \<longrightarrow>
            read_cell
              (mutate (fst (getSettings h this_settings)) (snd (getSettings h this_settings))
                 path change)
              (VRef this_settings) q
            = read_cell h (VRef this_settings) q)"
proof -
  have g: "getSettings h this_settings = (h @ [Object (props (h ! this_settings))], VRef (length h))"
    using assms(1) by (rule getSettings_valid)
  have rd: "read_cell (fst (getSettings h this_settings)) (snd (getSettings h this_settings)) []
      = Some (Object (props (h ! this_settings)))"
    by (simp add: g read_cell_def deref_def)
  from mutate_copy_appends [OF assms, of change]
  obtain c where m: "mutate (fst (getSettings h this_settings))
      (snd (getSettings h this_settings)) path change = h @ [c]"
    by blast
  have fr: "take (length h) (h @ [c]) = h" by simp
  have rc: "read_cell (h @ [c]) (VRef this_settings) q = read_cell h (VRef this_settings) q"
    if "well_formed h"
    using that assms(1) by (rule read_cell_frame)
  from rd fr rc show ?thesis
    by (simp add: m) (simp add: g)
qed

theorem getSettings_copy_is_shallow_witness:
  "take 1 (mutate (fst (getSettings clock_heap 0)) (snd (getSettings clock_heap 0))
             [''showSeconds'', ''x''] (set_prop ''y'' (VBool True))) = clock_heap \<and>
   take 7 (mutate (fst (getSettings background_heap 0)) (snd (getSettings background_heap 0))
             [] (set_prop ''backgroundType'' (VStr ''color''))) = background_heap \<and>
   read_cell (mutate (fst (getSettings background_heap 0)) (snd (getSettings background_heap 0))
             [] (set_prop ''backgroundType'' (VStr ''color'')))
     (VRef 0) [''uploadSettings'', ''images''] = Some (Array []) \<and>
   read_cell (mutate (fst (getSettings background_heap 0)) (snd (getSettings background_heap 0))
             [] (set_prop ''backgroundType'' (VStr ''color''))) (VRef 7) []
     = Some (Object [(''backgroundType'', VStr ''color''), (''uploadSettings'', VRef 1),
              (''colorSettings'', VRef 3), (''gradientSettings'', VRef 4),
              (''apiSettings'', VRef 5)])"
proof -
  have c: "0 < length clock_heap" and lc: "length clock_heap = 1"
    by (simp_all add: clock_heap_def)
  have b: "0 < length background_heap" and lb: "length background_heap = 7"
    by (simp_all add: background_heap_def)
  have f: "[''showSeconds'', ''x''] = [] \<or> flat (clock_heap ! 0)"
    by (simp add: clock_heap_def flat_def)
  have t: "([]::string list) = [] \<or> flat (background_heap ! 0)"
    by simp
  have wf: "well_formed background_heap"
    by (simp add: well_formed_def background_heap_def in_heap_def)
  have before: "read_cell background_heap (VRef 0) [''uploadSettings'', ''images'']
      = Some (Array [])"
    by (simp add: background_heap_def read_cell_def deref_def)
  have ev: "read_cell (mutate (fst (getSettings background_heap 0))
               (snd (getSettings background_heap 0))
               [] (set_prop ''backgroundType'' (VStr ''color''))) (VRef 7) []
     = Some (Object [(''backgroundType'', VStr ''color''), (''uploadSettings'', VRef 1),
              (''colorSettings'', VRef 3), (''gradientSettings'', VRef 4),
              (''apiSettings'', VRef 5)])"
    by (simp add: getSettings_def deref_def background_heap_def mutate_def read_cell_def)
  from getSettings_copy_is_shallow [OF c f, of "set_prop ''y'' (VBool True)"]
  have w1: "take (length clock_heap)
      (mutate (fst (getSettings clock_heap 0)) (snd (getSettings clock_heap 0))
         [''showSeconds'', ''x''] (set_prop ''y'' (VBool True))) = clock_heap"
    by blast
  from getSettings_copy_is_shallow [OF b t, of "set_prop ''backgroundType'' (VStr ''color'')"
      "[''uploadSettings'', ''images'']"] wf
  have w2: "take (length background_heap)
      (mutate (fst (getSettings background_heap 0)) (snd (getSettings background_heap 0))
         [] (set_prop ''backgroundType'' (VStr ''color''))) = background_heap"
    and w3: "read_cell
      (mutate (fst (getSettings background_heap 0)) (snd (getSettings background_heap 0))
         [] (set_prop ''backgroundType'' (VStr ''color'')))
      (VRef 0) [''uploadSettings'', ''images'']
      = read_cell background_heap (VRef 0) [''uploadSettings'', ''images'']"
    by blast+
  from w1 w2 w3 before ev show ?thesis
    by (simp add: lc lb)
qed

text \<open>
  Claim C3 as stated fails where the settings are nested: the copy holds the same
  references as the settings object. In the BackgroundEngine a \<open>push\<close> on
  \<open>getSettings().uploadSettings.images\<close> appends to the array the engine itself reads.
\<close>

theorem getSettings_nested_mutation_counterexample:
  "read_cell background_heap (VRef 0) [''uploadSettings'', ''images''] = Some (Array []) \<and>
   read_cell (mutate (fst (getSettings background_heap 0)) (snd (getSettings background_heap 0))
               [''uploadSettings'', ''images''] (push (VStr ''x'')))
     (VRef 0) [''uploadSettings'', ''images''] = Some (Array [VStr ''x'']) \<and>
   take (length background_heap)
     (mutate (fst (getSettings background_heap 0)) (snd (getSettings background_heap 0))
        [''uploadSettings'', ''images''] (push (VStr ''x''))) \<noteq> background_heap"
  by (simp add: getSettings_def deref_def background_heap_def mutate_def read_cell_def)

end
